theory Spec2Isabelle
  imports Main "HOL-Library.Option_ord"
begin

section \<open>Python values\<close>

text \<open>
  The curator tools (\<^verbatim>\<open>app/agents/curator/tools.py\<close>) work on parsed JSON: the
  Finnhub profile and news responses, the \<^verbatim>\<open>data_json\<close> and \<^verbatim>\<open>filters_json\<close>
  arguments. A parsed JSON value is modelled by the datatype below; an object is an
  association list in the order of its keys. JSON numbers are integers (the fields the
  tools read as numbers, \<^verbatim>\<open>score\<close>, \<^verbatim>\<open>min_score\<close>, \<^verbatim>\<open>max_score\<close> and
  \<^verbatim>\<open>limit\<close>, are documented as \<^verbatim>\<open>int\<close>); text is ASCII.
\<close>

datatype json =
    JNull
  | JBool bool
  | JInt int
  | JStr string
  | JList "json list"
  | JDict "(string \<times> json) list"

text \<open>Python truthiness of a parsed value (\<^verbatim>\<open>if v:\<close>, \<^verbatim>\<open>bool(v)\<close>, \<^verbatim>\<open>not v\<close>).\<close>

fun truthy :: "json \<Rightarrow> bool" where
  "truthy JNull = False"
| "truthy (JBool b) = b"
| "truthy (JInt n) = (n \<noteq> 0)"
| "truthy (JStr s) = (s \<noteq> [])"
| "truthy (JList xs) = (xs \<noteq> [])"
| "truthy (JDict kvs) = (kvs \<noteq> [])"

text \<open>\<^verbatim>\<open>d.get(key, default)\<close> on a dict.\<close>

definition dict_get :: "(string \<times> json) list \<Rightarrow> string \<Rightarrow> json \<Rightarrow> json" where
  "dict_get d key dflt = (case map_of d key of Some v \<Rightarrow> v | None \<Rightarrow> dflt)"

text \<open>
  The exceptions the tools raise or catch. \<^verbatim>\<open>RequestError\<close> stands for whatever
  \<^verbatim>\<open>requests.get\<close> or \<^verbatim>\<open>response.json()\<close> raises (connection error, timeout,
  undecodable body), \<^verbatim>\<open>StoreError\<close> for what the Supabase client raises.
\<close>

datatype exn =
    Exception string
  | AttributeError
  | TypeError
  | ValueError
  | KeyError
  | JSONDecodeError
  | RequestError
  | StoreError

subsection \<open>Strings\<close>

definition isupper :: "char \<Rightarrow> bool" where
  "isupper c = (65 \<le> (of_char c :: nat) \<and> (of_char c :: nat) \<le> 90)"

definition islower :: "char \<Rightarrow> bool" where
  "islower c = (97 \<le> (of_char c :: nat) \<and> (of_char c :: nat) \<le> 122)"

text \<open>
  \<^verbatim>\<open>str.lower\<close> and \<^verbatim>\<open>str.upper\<close> on ASCII: the letters differ in bit 5 (value 32),
  which is clear in \<^verbatim>\<open>A..Z\<close> and set in \<^verbatim>\<open>a..z\<close>.
\<close>

definition lower_char :: "char \<Rightarrow> char" where
  "lower_char c =
     (if isupper c
      then (case c of Char b0 b1 b2 b3 b4 b5 b6 b7 \<Rightarrow> Char b0 b1 b2 b3 b4 True b6 b7)
      else c)"

definition upper_char :: "char \<Rightarrow> char" where
  "upper_char c =
     (if islower c
      then (case c of Char b0 b1 b2 b3 b4 b5 b6 b7 \<Rightarrow> Char b0 b1 b2 b3 b4 False b6 b7)
      else c)"

definition lower :: "string \<Rightarrow> string" where
  "lower s = map lower_char s"

definition upper :: "string \<Rightarrow> string" where
  "upper s = map upper_char s"

text \<open>
  \<^verbatim>\<open>str.strip()\<close> removes leading and trailing whitespace: tab, line feed, vertical
  tab, form feed, carriage return, the separators 28 to 31, and space.
\<close>

definition isspace :: "char \<Rightarrow> bool" where
  "isspace c = (let n = (of_char c :: nat) in (9 \<le> n \<and> n \<le> 13) \<or> (28 \<le> n \<and> n \<le> 32))"

definition strip :: "string \<Rightarrow> string" where
  "strip s = rev (dropWhile isspace (rev (dropWhile isspace s)))"

text \<open>\<^verbatim>\<open>text.startswith(keyword)\<close> and the substring test \<^verbatim>\<open>keyword in text\<close>.\<close>

fun startswith :: "string \<Rightarrow> string \<Rightarrow> bool" where
  "startswith text [] = True"
| "startswith [] (k # ks) = False"
| "startswith (c # cs) (k # ks) = (c = k \<and> startswith cs ks)"

fun str_in :: "string \<Rightarrow> string \<Rightarrow> bool" where
  "str_in keyword [] = (keyword = [])"
| "str_in keyword (c # cs) = (startswith (c # cs) keyword \<or> str_in keyword cs)"

text \<open>\<^verbatim>\<open>sep.join(parts)\<close>.\<close>

fun join :: "string \<Rightarrow> string list \<Rightarrow> string" where
  "join sep [] = []"
| "join sep [x] = x"
| "join sep (x # y # ys) = x @ sep @ join sep (y # ys)"

definition quoted :: "string \<Rightarrow> string" where
  "quoted s = [CHR 0x27] @ s @ [CHR 0x27]"

section \<open>The AI keyword taxonomy\<close>

text \<open>\<^verbatim>\<open>AI_KEYWORDS\<close>: tier 1 (10 points), tier 2 (5 points), tier 3 (defined, never scored).\<close>

definition tier1_keywords :: "string list" where
  "tier1_keywords =
     [''artificial intelligence'', ''machine learning'', ''deep learning'',
      ''neural network'', ''large language model'', ''llm'', ''generative ai'',
      ''gpt'', ''transformer model'', ''ai chip'', ''gpu inference'', ''nvidia gpu'',
      ''neural processor'', ''tpu'', ''ai accelerator'']"

definition tier1_categories :: "(string \<times> string list) list" where
  "tier1_categories =
     [(''ai_chip'', [''gpu'', ''ai chip'', ''neural processor'', ''tpu'', ''ai accelerator'',
                     ''nvidia'', ''cuda'']),
      (''ai_software'', [''llm'', ''generative ai'', ''ai platform'', ''ai agent'', ''chatgpt'',
                         ''gpt'']),
      (''ai_cloud'', [''ai inference'', ''model training'', ''ai infrastructure'',
                      ''gpu cloud''])]"

definition tier2_keywords :: "string list" where
  "tier2_keywords =
     [''openai partnership'', ''anthropic'', ''ai partnership'',
      ''data center'', ''cloud ai'', ''ai-powered'', ''ai integration'',
      ''automation'', ''predictive analytics'', ''computer vision'',
      ''natural language processing'', ''nlp'', ''ai model'']"

definition tier3_keywords :: "string list" where
  "tier3_keywords =
     [''algorithm'', ''data science'', ''analytics platform'',
      ''intelligent'', ''smart technology'', ''automated'']"

section \<open>Stage 1: keyword scoring\<close>

text \<open>
  What one scan sees of the outside world: the \<^verbatim>\<open>FINNHUB_API_KEY\<close> environment
  variable, and the outcome of the two requests, each either an exception (\<open>Inl\<close>) or
  the parsed body of the response.
\<close>

record env =
  finnhub_api_key :: "string option"
  profile_response :: "exn + json"
  news_response :: "exn + json"

text \<open>The local variables of \<^verbatim>\<open>_keyword_scoring\<close> that the two \<^verbatim>\<open>try\<close> blocks assign.\<close>

record locals =
  cur_score :: int
  cur_evidence :: "string list"
  cur_company_name :: json
  cur_sector :: json

text \<open>The dict \<^verbatim>\<open>_keyword_scoring\<close> returns.\<close>

record scan_result =
  ticker :: string
  company_name :: json
  sector :: json
  has_ai :: bool
  score :: int
  category :: string
  evidence :: string

text \<open>
  Scoring the company description: every tier-1 keyword it contains adds 10 points and
  an evidence entry, then every tier-2 keyword adds 5 points and an evidence entry.
\<close>

definition score_description :: "string \<Rightarrow> locals \<Rightarrow> locals" where
  "score_description description st =
     (let st1 = fold (\<lambda>keyword s.
                   if str_in keyword description
                   then s\<lparr>cur_score := cur_score s + 10,
                          cur_evidence := cur_evidence s @ [''Description: '' @ quoted keyword]\<rparr>
                   else s) tier1_keywords st
      in fold (\<lambda>keyword s.
                   if str_in keyword description
                   then s\<lparr>cur_score := cur_score s + 5,
                          cur_evidence := cur_evidence s @ [''Description: '' @ quoted keyword]\<rparr>
                   else s) tier2_keywords st1)"

text \<open>
  The first \<^verbatim>\<open>try\<close> block. A failed request, a falsy body, a body that is no dict
  (\<^verbatim>\<open>.get\<close> raises) leave the locals as they are; a description that is no string
  (\<^verbatim>\<open>.lower\<close> raises) leaves the score but keeps the name and sector just assigned.
\<close>

definition profile_stage :: "string \<Rightarrow> exn + json \<Rightarrow> locals \<Rightarrow> locals" where
  "profile_stage tk resp st =
     (case resp of
        Inl e \<Rightarrow> st
      | Inr profile_data \<Rightarrow>
          if \<not> truthy profile_data then st
          else (case profile_data of
                  JDict d \<Rightarrow>
                    (let st1 = st\<lparr>cur_company_name := dict_get d ''name'' (JStr tk),
                                  cur_sector := dict_get d ''finnhubIndustry'' JNull\<rparr>
                     in case dict_get d ''description'' (JStr []) of
                          JStr description \<Rightarrow> score_description (lower description) st1
                        | _ \<Rightarrow> st1)
                | _ \<Rightarrow> st))"

text \<open>
  The text of one news article, \<^verbatim>\<open>f"{headline} {summary}"\<close> of the lower-cased fields;
  \<open>None\<close> when the article is no dict or a field is no string, where the source raises.
\<close>

definition article_text :: "json \<Rightarrow> string option" where
  "article_text article =
     (case article of
        JDict d \<Rightarrow>
          (case dict_get d ''headline'' (JStr []) of
             JStr headline \<Rightarrow>
               (case dict_get d ''summary'' (JStr []) of
                  JStr summary \<Rightarrow> Some (lower headline @ '' '' @ lower summary)
                | _ \<Rightarrow> None)
           | _ \<Rightarrow> None)
      | _ \<Rightarrow> None)"

text \<open>
  The two inner loops over one article: each \<^verbatim>\<open>break\<close>s at its first keyword found.
  The tier-1 loop adds 10 points and an evidence entry, the tier-2 loop 5 points only.
\<close>

definition score_article :: "string \<Rightarrow> locals \<Rightarrow> locals" where
  "score_article text st =
     (let st1 = (case find (\<lambda>keyword. str_in keyword text) tier1_keywords of
                   Some keyword \<Rightarrow>
                     st\<lparr>cur_score := cur_score st + 10,
                        cur_evidence := cur_evidence st
                           @ [''News: '' @ quoted keyword @ '' in headline'']\<rparr>
                 | None \<Rightarrow> st)
      in (case find (\<lambda>keyword. str_in keyword text) tier2_keywords of
            Some keyword \<Rightarrow> st1\<lparr>cur_score := cur_score st1 + 5\<rparr>
          | None \<Rightarrow> st1))"

text \<open>
  The loop over the articles. An article that raises ends the \<^verbatim>\<open>try\<close> block; what
  the earlier articles added stays.
\<close>

fun news_loop :: "json list \<Rightarrow> locals \<Rightarrow> locals" where
  "news_loop [] st = st"
| "news_loop (article # rest) st =
     (case article_text article of
        None \<Rightarrow> st
      | Some text \<Rightarrow> news_loop rest (score_article text st))"

text \<open>
  The second \<^verbatim>\<open>try\<close> block: the ten first articles of a list. Slicing any other
  body raises, or (a string) yields characters, whose \<^verbatim>\<open>.get\<close> raises: no change.
\<close>

definition news_stage :: "exn + json \<Rightarrow> locals \<Rightarrow> locals" where
  "news_stage resp st =
     (case resp of
        Inl e \<Rightarrow> st
      | Inr news_data \<Rightarrow>
          (case news_data of
             JList articles \<Rightarrow> news_loop (take 10 articles) st
           | _ \<Rightarrow> st))"

text \<open>\<^verbatim>\<open>_categorize_stock\<close>: the first category, in declaration order, one of whose
  keywords occurs in the lower-cased, space-joined evidence.\<close>

definition categorize_stock :: "string list \<Rightarrow> string" where
  "categorize_stock ev =
     (let evidence_text = lower (join '' '' ev)
      in case find (\<lambda>(cat, keywords). list_ex (\<lambda>keyword. str_in keyword evidence_text) keywords)
                tier1_categories of
           Some (cat, keywords) \<Rightarrow> cat
         | None \<Rightarrow> ''ai_beneficiary'')"

text \<open>\<^verbatim>\<open>category or 'ai_beneficiary'\<close>, where \<^verbatim>\<open>category\<close> is \<^verbatim>\<open>None\<close> or a string.\<close>

definition or_default :: "string option \<Rightarrow> string \<Rightarrow> string" where
  "or_default c dflt = (case c of None \<Rightarrow> dflt | Some s \<Rightarrow> if s = [] then dflt else s)"

definition keyword_scoring :: "env \<Rightarrow> string \<Rightarrow> exn + scan_result" where
  "keyword_scoring e tk =
     (if (case finnhub_api_key e of None \<Rightarrow> True | Some k \<Rightarrow> k = [])
      then Inl (Exception ''FINNHUB_API_KEY not set'')
      else
        (let st0 = \<lparr>cur_score = 0, cur_evidence = [],
                    cur_company_name = JStr tk, cur_sector = JNull\<rparr>;
             st1 = profile_stage tk (profile_response e) st0;
             st2 = news_stage (news_response e) st1;
             sc = min (cur_score st2) 100;
             cat = (if sc > 0 then Some (categorize_stock (cur_evidence st2)) else None)
         in Inr \<lparr>ticker = tk,
                 company_name = cur_company_name st2,
                 sector = cur_sector st2,
                 has_ai = (sc \<ge> 40),
                 score = sc,
                 category = or_default cat ''ai_beneficiary'',
                 evidence = join '' | '' (take 5 (cur_evidence st2))\<rparr>))"

section \<open>Stage 2 and the scanner\<close>

text \<open>The dict \<^verbatim>\<open>_llm_validation\<close> returns.\<close>

record llm_result =
  adjusted_score :: int
  llm_category :: string
  reasoning :: string

text \<open>\<^verbatim>\<open>_llm_validation\<close> as the source has it: the prompt is built and dropped, and the
  stage-1 score and category come back unchanged.\<close>

definition llm_validation :: "string \<Rightarrow> scan_result \<Rightarrow> llm_result" where
  "llm_validation tk stage1_result =
     \<lparr>adjusted_score = score stage1_result,
      llm_category = category stage1_result,
      reasoning = ''LLM validation not implemented yet - using keyword scoring''\<rparr>"

text \<open>The dict of the \<^verbatim>\<open>except\<close> branch of \<^verbatim>\<open>_scan_stock_for_ai\<close>.\<close>

record scan_error =
  err_ticker :: string
  err_error :: exn
  err_has_ai :: bool
  err_score :: int

datatype scan_output = ScanResult scan_result | ScanError scan_error

text \<open>
  \<^verbatim>\<open>_scan_stock_for_ai\<close>, with the validator it calls as a parameter, so that a
  validator that raises can be followed through the \<^verbatim>\<open>try\<close>/\<^verbatim>\<open>except\<close> as well.
  The second component lists the validator's invocations, with their arguments.
\<close>

type_synonym validator = "string \<Rightarrow> scan_result \<Rightarrow> exn + llm_result"

definition scan_stock_for_ai_with ::
  "validator \<Rightarrow> env \<Rightarrow> string \<Rightarrow> scan_output \<times> (string \<times> scan_result) list" where
  "scan_stock_for_ai_with validate e tk0 =
     (let tk = strip (upper tk0)
      in case keyword_scoring e tk of
           Inl ex \<Rightarrow>
             (ScanError \<lparr>err_ticker = tk, err_error = ex, err_has_ai = False, err_score = 0\<rparr>, [])
         | Inr result \<Rightarrow>
             if 30 \<le> score result \<and> score result \<le> 70
             then (case validate tk result of
                     Inl ex \<Rightarrow>
                       (ScanError \<lparr>err_ticker = tk, err_error = ex,
                                   err_has_ai = False, err_score = 0\<rparr>,
                        [(tk, result)])
                   | Inr llm \<Rightarrow>
                       (ScanResult (result\<lparr>score := adjusted_score llm,
                                           category := llm_category llm,
                                           evidence := evidence result @ '' | LLM: ''
                                                         @ reasoning llm\<rparr>),
                        [(tk, result)]))
             else (ScanResult result, []))"

text \<open>The scanner of the source: its validator is \<^verbatim>\<open>_llm_validation\<close>, which returns.\<close>

definition scan_stock_for_ai ::
  "env \<Rightarrow> string \<Rightarrow> scan_output \<times> (string \<times> scan_result) list" where
  "scan_stock_for_ai = scan_stock_for_ai_with (\<lambda>tk r. Inr (llm_validation tk r))"

text \<open>Reading the keys of the returned JSON object; a key it lacks reads \<open>None\<close>.\<close>

fun out_score :: "scan_output \<Rightarrow> int" where
  "out_score (ScanResult r) = score r"
| "out_score (ScanError x) = err_score x"

fun out_has_ai :: "scan_output \<Rightarrow> bool" where
  "out_has_ai (ScanResult r) = has_ai r"
| "out_has_ai (ScanError x) = err_has_ai x"

fun out_category :: "scan_output \<Rightarrow> string option" where
  "out_category (ScanResult r) = Some (category r)"
| "out_category (ScanError x) = None"

fun out_evidence :: "scan_output \<Rightarrow> string option" where
  "out_evidence (ScanResult r) = Some (evidence r)"
| "out_evidence (ScanError x) = None"

section \<open>The universe store\<close>

text \<open>
  A row of the \<^verbatim>\<open>trading_universe\<close> table, and a dict sent to it, maps column names
  to values. The table keeps its rows in insertion order; \<^verbatim>\<open>ticker\<close> is its key.
\<close>

type_synonym row = "string \<rightharpoonup> json"

record store =
  rows :: "row list"
  defaults :: row
  reachable :: bool

text \<open>
  The Supabase client and the table behind it are not part of the repository; the
  store is a list of rows, the table's column defaults, and whether it can be reached.
  Its two operations follow the contract of the spec.
\<close>



text \<open>The calls the source makes on the query builder, in the order it makes them.\<close>

datatype qop =
    Eq string json
  | Gte string json
  | Lte string json
  | OrderDesc string
  | Limit json

text \<open>
  Modelled from the spec: the key of \<^verbatim>\<open>order('score', desc=True)\<close>, results ordered
  by score descending. Sorting by it puts the largest score first; a row without an
  integer score, which the spec does not place, comes before the others.
\<close>

definition desc_key :: "string \<Rightarrow> row \<Rightarrow> int option" where
  "desc_key col r = (case r col of Some (JInt n) \<Rightarrow> Some (- n) | _ \<Rightarrow> None)"

text \<open>
  Modelled from the spec: one call of the query builder, on the rows so far. \<^verbatim>\<open>eq\<close>
  is an exact match, \<^verbatim>\<open>gte\<close> and \<^verbatim>\<open>lte\<close> an inclusive bound on an integer column,
  the order is by the column descending, ties in insertion order (the sort is
  stable), \<^verbatim>\<open>limit\<close> caps the number of rows. A bound or a limit that is no integer
  and a negative limit are rejected.
\<close>

fun apply_qop :: "qop \<Rightarrow> row list \<Rightarrow> exn + row list" where
  "apply_qop (Eq col v) rs = Inr (filter (\<lambda>r. r col = Some v) rs)"
| "apply_qop (Gte col v) rs =
     (case v of
        JInt m \<Rightarrow> Inr (filter (\<lambda>r. case r col of Some (JInt n) \<Rightarrow> m \<le> n | _ \<Rightarrow> False) rs)
      | _ \<Rightarrow> Inl StoreError)"
| "apply_qop (Lte col v) rs =
     (case v of
        JInt m \<Rightarrow> Inr (filter (\<lambda>r. case r col of Some (JInt n) \<Rightarrow> n \<le> m | _ \<Rightarrow> False) rs)
      | _ \<Rightarrow> Inl StoreError)"
| "apply_qop (OrderDesc col) rs = Inr (sort_key (desc_key col) rs)"
| "apply_qop (Limit v) rs =
     (case v of
        JInt n \<Rightarrow> if 0 \<le> n then Inr (take (nat n) rs) else Inl StoreError
      | _ \<Rightarrow> Inl StoreError)"

text \<open>Modelled from the spec: the calls of a query, applied in order.\<close>

fun apply_qops :: "qop list \<Rightarrow> row list \<Rightarrow> exn + row list" where
  "apply_qops [] rs = Inr rs"
| "apply_qops (q # qs) rs =
     (case apply_qop q rs of Inl ex \<Rightarrow> Inl ex | Inr rs' \<Rightarrow> apply_qops qs rs')"

text \<open>
  Modelled from the spec: \<^verbatim>\<open>query.execute()\<close> on the store; a persistence-layer
  outage raises.
\<close>

definition store_execute :: "store \<Rightarrow> qop list \<Rightarrow> exn + row list" where
  "store_execute st query =
     (if reachable st then apply_qops query (rows st) else Inl StoreError)"

subsection \<open>Upsert\<close>


text \<open>\<^verbatim>\<open>key in d\<close> and \<^verbatim>\<open>d[key] = v\<close> on a dict.\<close>

definition dict_has :: "(string \<times> json) list \<Rightarrow> string \<Rightarrow> bool" where
  "dict_has d key = (map_of d key \<noteq> None)"








subsection \<open>Query\<close>

record query_result =
  count :: nat
  stocks :: "row list"

datatype query_reply = Found query_result | QueryError exn

text \<open>The query \<^verbatim>\<open>_get_trading_universe\<close> builds from the parsed filters.\<close>

definition build_query :: "(string \<times> json) list \<Rightarrow> qop list" where
  "build_query filters =
     (let q1 = (if dict_has filters ''is_active''
                then [Eq ''is_active'' (dict_get filters ''is_active'' JNull)] else []);
          q2 = (if dict_has filters ''min_score''
                then q1 @ [Gte ''score'' (dict_get filters ''min_score'' JNull)] else q1);
          q3 = (if dict_has filters ''max_score''
                then q2 @ [Lte ''score'' (dict_get filters ''max_score'' JNull)] else q2);
          q4 = (if dict_has filters ''category''
                then q3 @ [Eq ''category'' (dict_get filters ''category'' JNull)] else q3);
          q5 = q4 @ [OrderDesc ''score''];
          limit = dict_get filters ''limit'' (JInt 100)
      in q5 @ [Limit limit])"

text \<open>
  \<^verbatim>\<open>_get_trading_universe\<close>: \<^verbatim>\<open>filters_json\<close> is given by what \<^verbatim>\<open>json.loads\<close>
  makes of it. Filters that are no dict raise at one of the key tests or at
  \<^verbatim>\<open>filters.get\<close>; every exception becomes the error reply.
\<close>

definition get_trading_universe :: "store option \<Rightarrow> exn + json \<Rightarrow> query_reply" where
  "get_trading_universe supabase filters_json =
     (case supabase of
        None \<Rightarrow> QueryError (Exception ''Supabase not connected'')
      | Some st \<Rightarrow>
          (case filters_json of
             Inl ex \<Rightarrow> QueryError ex
           | Inr (JDict filters) \<Rightarrow>
               (case store_execute st (build_query filters) of
                  Inl ex \<Rightarrow> QueryError ex
                | Inr data \<Rightarrow> Found \<lparr>count = length data, stocks = data\<rparr>)
           | Inr _ \<Rightarrow> QueryError TypeError))"

section \<open>Notions the properties are stated with\<close>

text \<open>The keywords of a tier that occur in a text, each once, in the tier's order.\<close>

definition keywords_present :: "string list \<Rightarrow> string \<Rightarrow> string list" where
  "keywords_present tier text = filter (\<lambda>keyword. str_in keyword text) tier"

text \<open>The check at the head of \<^verbatim>\<open>_keyword_scoring\<close> passes: the API key is set and not empty.\<close>

definition api_key_set :: "env \<Rightarrow> bool" where
  "api_key_set e = (case finnhub_api_key e of None \<Rightarrow> False | Some k \<Rightarrow> k \<noteq> [])"

text \<open>The text the description loops search: the lower-cased description of a profile body
  that has one, the empty text where the first \<^verbatim>\<open>try\<close> block scores nothing.\<close>

definition description_text :: "exn + json \<Rightarrow> string" where
  "description_text resp =
     (case resp of
        Inl ex \<Rightarrow> []
      | Inr profile_data \<Rightarrow>
          if \<not> truthy profile_data then []
          else (case profile_data of
                  JDict d \<Rightarrow> (case dict_get d ''description'' (JStr []) of
                                JStr description \<Rightarrow> lower description
                              | _ \<Rightarrow> [])
                | _ \<Rightarrow> []))"

text \<open>The texts of the articles the news loop scans: those before the first article that
  raises, among the ten first.\<close>

fun readable_prefix :: "json list \<Rightarrow> string list" where
  "readable_prefix [] = []"
| "readable_prefix (article # rest) =
     (case article_text article of None \<Rightarrow> [] | Some t \<Rightarrow> t # readable_prefix rest)"

definition scanned_texts :: "exn + json \<Rightarrow> string list" where
  "scanned_texts resp =
     (case resp of
        Inr (JList articles) \<Rightarrow> readable_prefix (take 10 articles)
      | _ \<Rightarrow> [])"

text \<open>The points of the keyword matches found in a description: 10 for each tier-1 keyword
  present, 5 for each tier-2 keyword present.\<close>

definition description_points :: "string \<Rightarrow> int" where
  "description_points d = 10 * int (length (keywords_present tier1_keywords d))
                         + 5 * int (length (keywords_present tier2_keywords d))"

text \<open>The points of the keyword matches found in one article: each tier once.\<close>

definition article_points :: "string \<Rightarrow> int" where
  "article_points t = (if keywords_present tier1_keywords t = [] then 0 else 10)
                    + (if keywords_present tier2_keywords t = [] then 0 else 5)"

text \<open>The tier-1 keyword at which the tier-1 loop over an article breaks, if any.\<close>

definition tier1_hit :: "string \<Rightarrow> string option" where
  "tier1_hit t = find (\<lambda>keyword. str_in keyword t) tier1_keywords"

text \<open>The evidence entries of the description hits, and of the tier-1 news hits.\<close>

definition description_evidence :: "string \<Rightarrow> string list" where
  "description_evidence d =
     map (\<lambda>keyword. ''Description: '' @ quoted keyword)
       (keywords_present tier1_keywords d @ keywords_present tier2_keywords d)"

definition news_evidence :: "string option list \<Rightarrow> string list" where
  "news_evidence hits =
     concat (map (\<lambda>h. case h of None \<Rightarrow> []
                      | Some keyword \<Rightarrow> [''News: '' @ quoted keyword @ '' in headline'']) hits)"

text \<open>The points of all keyword matches found in a scan, before the cap, and the evidence
  entries of the scan.\<close>

definition raw_score :: "env \<Rightarrow> int" where
  "raw_score e = description_points (description_text (profile_response e))
               + sum_list (map article_points (scanned_texts (news_response e)))"

definition evidence_list :: "env \<Rightarrow> string list" where
  "evidence_list e = description_evidence (description_text (profile_response e))
                   @ news_evidence (map tier1_hit (scanned_texts (news_response e)))"

text \<open>
  Every keyword match found in the text \<open>a\<close> is found in the text \<open>b\<close>; and the
  same of two article lists, article by article, where \<open>bs\<close> may have more articles.
\<close>

definition text_le :: "string \<Rightarrow> string \<Rightarrow> bool" where
  "text_le a b = list_all (\<lambda>keyword. str_in keyword b)
                   (keywords_present (tier1_keywords @ tier2_keywords) a)"

fun texts_le :: "string list \<Rightarrow> string list \<Rightarrow> bool" where
  "texts_le [] bs = True"
| "texts_le (a # as) [] = False"
| "texts_le (a # as) (b # bs) = (text_le a b \<and> texts_le as bs)"








text \<open>
  What the filters of a query ask of a row, following the spec: \<^verbatim>\<open>is_active\<close> and
  \<^verbatim>\<open>category\<close> an exact match, \<^verbatim>\<open>min_score\<close> and \<^verbatim>\<open>max_score\<close> an inclusive
  range on the score, \<^verbatim>\<open>limit\<close> the cap on the number of rows, 100 by default.
\<close>

definition matches_is_active :: "(string \<times> json) list \<Rightarrow> row \<Rightarrow> bool" where
  "matches_is_active f r =
     (case map_of f ''is_active'' of None \<Rightarrow> True | Some v \<Rightarrow> r ''is_active'' = Some v)"

definition matches_min_score :: "(string \<times> json) list \<Rightarrow> row \<Rightarrow> bool" where
  "matches_min_score f r =
     (case map_of f ''min_score'' of
        None \<Rightarrow> True
      | Some (JInt m) \<Rightarrow> (case r ''score'' of Some (JInt n) \<Rightarrow> m \<le> n | _ \<Rightarrow> False)
      | _ \<Rightarrow> False)"

definition matches_max_score :: "(string \<times> json) list \<Rightarrow> row \<Rightarrow> bool" where
  "matches_max_score f r =
     (case map_of f ''max_score'' of
        None \<Rightarrow> True
      | Some (JInt m) \<Rightarrow> (case r ''score'' of Some (JInt n) \<Rightarrow> n \<le> m | _ \<Rightarrow> False)
      | _ \<Rightarrow> False)"

definition matches_category :: "(string \<times> json) list \<Rightarrow> row \<Rightarrow> bool" where
  "matches_category f r =
     (case map_of f ''category'' of None \<Rightarrow> True | Some v \<Rightarrow> r ''category'' = Some v)"

definition row_matches :: "(string \<times> json) list \<Rightarrow> row \<Rightarrow> bool" where
  "row_matches f r =
     (matches_is_active f r \<and> matches_min_score f r \<and> matches_max_score f r
      \<and> matches_category f r)"

definition query_limit :: "(string \<times> json) list \<Rightarrow> nat" where
  "query_limit f = (case map_of f ''limit'' of None \<Rightarrow> 100 | Some (JInt n) \<Rightarrow> nat n | _ \<Rightarrow> 0)"

text \<open>The bounds are integers where given, the limit a natural number where given.\<close>

definition is_int_or_absent :: "json option \<Rightarrow> bool" where
  "is_int_or_absent v = (case v of None \<Rightarrow> True | Some (JInt n) \<Rightarrow> True | _ \<Rightarrow> False)"

definition filters_typed :: "(string \<times> json) list \<Rightarrow> bool" where
  "filters_typed f =
     (is_int_or_absent (map_of f ''min_score'') \<and> is_int_or_absent (map_of f ''max_score'')
      \<and> (case map_of f ''limit'' of None \<Rightarrow> True | Some (JInt n) \<Rightarrow> 0 \<le> n | _ \<Rightarrow> False))"

text \<open>The rows the spec expects of a query: the matching ones, by score descending,
  capped.\<close>

definition expected_rows :: "(string \<times> json) list \<Rightarrow> row list \<Rightarrow> row list" where
  "expected_rows f rs =
     take (query_limit f) (sort_key (desc_key ''score'') (filter (row_matches f) rs))"

section \<open>Example inputs\<close>

text \<open>A company with no AI keyword in its profile or news.\<close>

definition quiet_env :: env where
  "quiet_env =
     \<lparr>finnhub_api_key = Some ''key'',
      profile_response = Inr (JDict [(''name'', JStr ''Acme Burgers''),
                                     (''finnhubIndustry'', JStr ''Restaurants''),
                                     (''description'', JStr ''Acme sells hamburgers.'')]),
      news_response = Inr (JList [JDict [(''headline'', JStr ''Acme opens a new diner''),
                                         (''summary'', JStr ''Fries included'')]])\<rparr>"

text \<open>A company whose description holds three tier-1 keywords: 30 points.\<close>

definition borderline_env :: env where
  "borderline_env =
     \<lparr>finnhub_api_key = Some ''key'',
      profile_response = Inr (JDict [(''name'', JStr ''Acme Labs''),
                                     (''description'',
                                      JStr ''Machine learning, deep learning and LLM tools.'')]),
      news_response = Inr (JList [])\<rparr>"


text \<open>Both requests fail, with the API key set and without it.\<close>

definition offline_env :: env where
  "offline_env =
     \<lparr>finnhub_api_key = Some ''key'',
      profile_response = Inl RequestError,
      news_response = Inl RequestError\<rparr>"

definition no_key_env :: env where
  "no_key_env =
     \<lparr>finnhub_api_key = None,
      profile_response = Inl RequestError,
      news_response = Inl RequestError\<rparr>"


text \<open>
  The same company with one more tier-1 keyword in its description and an article with
  a tier-1 and a tier-2 keyword; and with that article's tier-2 keyword taken out.
\<close>

definition richer_env :: env where
  "richer_env =
     \<lparr>finnhub_api_key = Some ''key'',
      profile_response = Inr (JDict [(''name'', JStr ''Acme Labs''),
                                     (''description'',
                                      JStr ''Machine learning, deep learning and LLM tools on an AI chip.'')]),
      news_response = Inr (JList [JDict [(''headline'', JStr ''Acme AI chip ships''),
                                         (''summary'', JStr ''Built for the data center'')]])\<rparr>"

definition richer_env_plain_news :: env where
  "richer_env_plain_news =
     richer_env\<lparr>news_response :=
        Inr (JList [JDict [(''headline'', JStr ''Acme AI chip ships''),
                           (''summary'', JStr ''Built for everyone'')]])\<rparr>"




text \<open>
  The store of the spec's query example, three active records with scores 90, 75, 60
  and an inactive one with score 95, and the filters of the example.
\<close>

definition stock :: "string \<Rightarrow> int \<Rightarrow> bool \<Rightarrow> row" where
  "stock tk sc active =
     [''ticker'' \<mapsto> JStr tk, ''score'' \<mapsto> JInt sc, ''is_active'' \<mapsto> JBool active]"

definition example_store :: store where
  "example_store =
     \<lparr>rows = [stock ''AAA'' 60 True, stock ''BBB'' 95 False,
               stock ''CCC'' 75 True, stock ''DDD'' 90 True],
      defaults = Map.empty, reachable = True\<rparr>"

definition example_filters :: "(string \<times> json) list" where
  "example_filters = [(''is_active'', JBool True), (''min_score'', JInt 70), (''limit'', JInt 50)]"



section \<open>Keyword scoring of news articles\<close>

lemma find_None_keywords_present:
  "(find (\<lambda>keyword. str_in keyword text) tier = None) = (keywords_present tier text = [])"
  unfolding keywords_present_def by (induction tier) auto

lemma score_article_cur_score:
  "cur_score (score_article text st) =
     cur_score st + (if keywords_present tier1_keywords text \<noteq> [] then 10 else 0)
                  + (if keywords_present tier2_keywords text \<noteq> [] then 5 else 0)"
proof -
  have t1: "keywords_present tier1_keywords text \<noteq> []"
    if "find (\<lambda>keyword. str_in keyword text) tier1_keywords = Some k" for k
    using that find_None_keywords_present [of "text" tier1_keywords] by simp
  have t2: "keywords_present tier2_keywords text \<noteq> []"
    if "find (\<lambda>keyword. str_in keyword text) tier2_keywords = Some k" for k
    using that find_None_keywords_present [of "text" tier2_keywords] by simp
  show ?thesis
    unfolding score_article_def Let_def
    by (auto split: option.splits simp: find_None_keywords_present t1 t2)
qed

text \<open>
  C1, as the source has it. Each tier's loop over an article breaks at the first
  keyword it finds, so an article adds 10 points when its text contains at least one
  tier-1 keyword, however many, and 5 points when it contains at least one tier-2
  keyword: at most 15 points an article.
\<close>

theorem article_counts_once_per_tier:
  "cur_score (score_article text st) - cur_score st =
     (if keywords_present tier1_keywords text = [] then 0 else 10)
   + (if keywords_present tier2_keywords text = [] then 0 else 5)"
  by (simp add: score_article_cur_score)

theorem article_counts_once_per_tier_witness:
  "cur_score (score_article ''ai chip maker adds nlp and computer vision ''
       \<lparr>cur_score = 20, cur_evidence = [], cur_company_name = JNull, cur_sector = JNull\<rparr>) = 35"
  using article_counts_once_per_tier
    [of "''ai chip maker adds nlp and computer vision ''"
        "\<lparr>cur_score = 20, cur_evidence = [], cur_company_name = JNull, cur_sector = JNull\<rparr>"]
  by (simp add: keywords_present_def tier1_keywords_def tier2_keywords_def)

text \<open>
  C1 as stated fails: the text of this article contains two different tier-1 keywords
  and no tier-2 keyword, and the scan of it scores 10, not 20.
\<close>

theorem two_tier1_keywords_counterexample:
  "article_text (JDict [(''headline'', JStr ''Machine learning meets deep learning''),
                        (''summary'', JStr ''A primer'')])
     = Some ''machine learning meets deep learning a primer''
   \<and> keywords_present tier1_keywords ''machine learning meets deep learning a primer''
     = [''machine learning'', ''deep learning'']
   \<and> keywords_present tier2_keywords ''machine learning meets deep learning a primer'' = []
   \<and> map_sum id score
       (keyword_scoring
          \<lparr>finnhub_api_key = Some ''key'', profile_response = Inr (JDict []),
             news_response = Inr (JList
               [JDict [(''headline'', JStr ''Machine learning meets deep learning''),
                       (''summary'', JStr ''A primer'')]])\<rparr>
          ''ACME'') = Inr 10"
  by (simp add: keyword_scoring_def profile_stage_def news_stage_def article_text_def
      dict_get_def lower_def lower_char_def isupper_def score_article_def
      keywords_present_def tier1_keywords_def tier2_keywords_def Let_def)

section \<open>What a scan computes\<close>

lemma fold_hits_score:
  "cur_score (fold (\<lambda>keyword s. if str_in keyword d
        then s\<lparr>cur_score := cur_score s + p, cur_evidence := cur_evidence s @ [g keyword]\<rparr>
        else s) tier st)
   = cur_score st + p * int (length (keywords_present tier d))"
  unfolding keywords_present_def
  by (induction tier arbitrary: st) (auto simp: algebra_simps)

lemma score_description_nonneg: "cur_score st \<le> cur_score (score_description d st)"
  unfolding score_description_def Let_def by (simp add: fold_hits_score)

lemma score_article_nonneg: "cur_score st \<le> cur_score (score_article t st)"
  by (simp add: score_article_cur_score)

lemma news_loop_nonneg: "cur_score st \<le> cur_score (news_loop arts st)"
proof (induction arts arbitrary: st)
  case Nil then show ?case by simp
next
  case (Cons a arts)
  show ?case
  proof (cases "article_text a")
    case None then show ?thesis by simp
  next
    case (Some t)
    have "cur_score st \<le> cur_score (score_article t st)" by (rule score_article_nonneg)
    also have "\<dots> \<le> cur_score (news_loop arts (score_article t st))" by (rule Cons.IH)
    finally show ?thesis using Some by simp
  qed
qed

lemma profile_stage_nonneg: "cur_score st \<le> cur_score (profile_stage tk resp st)"
  unfolding profile_stage_def
  by (auto split: sum.splits json.splits simp: score_description_nonneg Let_def
      intro: order_trans [OF _ score_description_nonneg])

lemma news_stage_nonneg: "cur_score st \<le> cur_score (news_stage resp st)"
  unfolding news_stage_def
  by (auto split: sum.splits json.splits simp: news_loop_nonneg)

lemma keyword_scoring_Inl:
  "\<not> api_key_set e \<Longrightarrow> keyword_scoring e tk = Inl (Exception ''FINNHUB_API_KEY not set'')"
  unfolding keyword_scoring_def api_key_set_def by (auto split: option.splits)

lemma keyword_scoring_range:
  assumes "keyword_scoring e tk = Inr r"
  shows "0 \<le> score r \<and> score r \<le> 100 \<and> has_ai r = (score r \<ge> 40)"
proof -
  let ?st0 = "\<lparr>cur_score = 0, cur_evidence = [], cur_company_name = JStr tk, cur_sector = JNull\<rparr>"
  let ?st1 = "profile_stage tk (profile_response e) ?st0"
  let ?st2 = "news_stage (news_response e) ?st1"
  have "cur_score ?st0 \<le> cur_score ?st1" by (rule profile_stage_nonneg)
  also have "\<dots> \<le> cur_score ?st2" by (rule news_stage_nonneg)
  finally have nonneg: "0 \<le> cur_score ?st2" by simp
  from assms have "score r = min (cur_score ?st2) 100" "has_ai r = (min (cur_score ?st2) 100 \<ge> 40)"
    unfolding keyword_scoring_def Let_def by (auto split: if_splits)
  with nonneg show ?thesis by auto
qed

lemma keywords_present_empty_text:
  "keywords_present tier1_keywords [] = []" "keywords_present tier2_keywords [] = []"
  by (simp_all add: keywords_present_def tier1_keywords_def tier2_keywords_def)

lemma description_points_empty: "description_points [] = 0"
  by (simp add: description_points_def keywords_present_empty_text)

lemma description_evidence_empty: "description_evidence [] = []"
  by (simp add: description_evidence_def keywords_present_empty_text)

lemma score_description_cur_score:
  "cur_score (score_description d st) = cur_score st + description_points d"
  unfolding score_description_def Let_def description_points_def
  by (simp add: fold_hits_score)

lemma fold_hits_evidence:
  "cur_evidence (fold (\<lambda>keyword s. if str_in keyword d
        then s\<lparr>cur_score := cur_score s + p, cur_evidence := cur_evidence s @ [g keyword]\<rparr>
        else s) tier st)
   = cur_evidence st @ map g (keywords_present tier d)"
  unfolding keywords_present_def
  by (induction tier arbitrary: st) auto

lemma score_description_cur_evidence:
  "cur_evidence (score_description d st) = cur_evidence st @ description_evidence d"
  unfolding score_description_def Let_def description_evidence_def
  by (simp add: fold_hits_evidence)

lemma profile_stage_cur_score:
  "cur_score (profile_stage tk resp st) = cur_score st + description_points (description_text resp)"
  unfolding profile_stage_def description_text_def
  by (auto split: sum.splits json.splits
      simp: score_description_cur_score description_points_empty Let_def)

lemma profile_stage_cur_evidence:
  "cur_evidence (profile_stage tk resp st)
     = cur_evidence st @ description_evidence (description_text resp)"
  unfolding profile_stage_def description_text_def
  by (auto split: sum.splits json.splits
      simp: score_description_cur_evidence description_evidence_empty Let_def)

lemma score_article_cur_evidence:
  "cur_evidence (score_article t st) = cur_evidence st @ news_evidence [tier1_hit t]"
  unfolding score_article_def Let_def news_evidence_def tier1_hit_def
  by (auto split: option.splits)

lemma news_evidence_Cons: "news_evidence (h # hs) = news_evidence [h] @ news_evidence hs"
  by (simp add: news_evidence_def)

lemma news_loop_cur_score:
  "cur_score (news_loop arts st)
     = cur_score st + sum_list (map article_points (readable_prefix arts))"
  by (induction arts arbitrary: st)
     (auto split: option.splits simp: score_article_cur_score article_points_def)

lemma news_loop_cur_evidence:
  "cur_evidence (news_loop arts st)
     = cur_evidence st @ news_evidence (map tier1_hit (readable_prefix arts))"
proof (induction arts arbitrary: st)
  case Nil then show ?case by (simp add: news_evidence_def)
next
  case (Cons a arts)
  show ?case
  proof (cases "article_text a")
    case None then show ?thesis by (simp add: news_evidence_def)
  next
    case (Some t)
    then show ?thesis
      using Cons.IH [of "score_article t st"]
        news_evidence_Cons [of "tier1_hit t" "map tier1_hit (readable_prefix arts)"]
      by (simp add: score_article_cur_evidence)
  qed
qed

lemma news_stage_cur_score:
  "cur_score (news_stage resp st)
     = cur_score st + sum_list (map article_points (scanned_texts resp))"
  unfolding news_stage_def scanned_texts_def
  by (auto split: sum.splits json.splits simp: news_loop_cur_score)

lemma news_stage_cur_evidence:
  "cur_evidence (news_stage resp st)
     = cur_evidence st @ news_evidence (map tier1_hit (scanned_texts resp))"
  unfolding news_stage_def scanned_texts_def
  by (auto split: sum.splits json.splits simp: news_loop_cur_evidence news_evidence_def)

lemma keyword_scoring_Inr:
  assumes "api_key_set e"
  shows "keyword_scoring e tk =
     Inr \<lparr>ticker = tk,
          company_name = cur_company_name (news_stage (news_response e) (profile_stage tk (profile_response e)
             \<lparr>cur_score = 0, cur_evidence = [], cur_company_name = JStr tk, cur_sector = JNull\<rparr>)),
          sector = cur_sector (news_stage (news_response e) (profile_stage tk (profile_response e)
             \<lparr>cur_score = 0, cur_evidence = [], cur_company_name = JStr tk, cur_sector = JNull\<rparr>)),
          has_ai = (min (raw_score e) 100 \<ge> 40),
          score = min (raw_score e) 100,
          category = or_default (if min (raw_score e) 100 > 0 then Some (categorize_stock (evidence_list e)) else None) ''ai_beneficiary'',
          evidence = join '' | '' (take 5 (evidence_list e))\<rparr>"
  using assms unfolding keyword_scoring_def api_key_set_def Let_def raw_score_def evidence_list_def
  by (auto split: option.splits simp: news_stage_cur_score news_stage_cur_evidence
       profile_stage_cur_score profile_stage_cur_evidence)

lemma find_Some_mem: "find P xs = Some x \<Longrightarrow> x \<in> set xs"
  by (induction xs) (auto split: if_splits)

lemma categorize_stock_nonempty: "categorize_stock ev \<noteq> []"
proof (cases "find (\<lambda>(cat, keywords). list_ex (\<lambda>keyword. str_in keyword (lower (join '' '' ev))) keywords)
                tier1_categories")
  case None
  then show ?thesis by (simp add: categorize_stock_def)
next
  case (Some c)
  then have "c \<in> set tier1_categories" by (rule find_Some_mem)
  then have "fst c \<noteq> []" by (auto simp: tier1_categories_def)
  with Some show ?thesis by (auto simp: categorize_stock_def split: prod.splits)
qed

lemma categorize_stock_Nil: "categorize_stock [] = ''ai_beneficiary''"
  by (simp add: categorize_stock_def lower_def tier1_categories_def)

lemma description_points_nonneg: "0 \<le> description_points d"
  by (simp add: description_points_def)

lemma article_points_nonneg: "0 \<le> article_points t"
  by (simp add: article_points_def)

lemma sum_article_points_nonneg: "0 \<le> sum_list (map article_points ts)"
  by (induction ts) (auto simp: article_points_nonneg intro: add_nonneg_nonneg)

lemma raw_score_nonneg: "0 \<le> raw_score e"
  unfolding raw_score_def
  by (intro add_nonneg_nonneg description_points_nonneg sum_article_points_nonneg)

lemma description_points_zero: "description_points d = 0 \<Longrightarrow> description_evidence d = []"
proof -
  assume "description_points d = 0"
  then have "int (length (keywords_present tier1_keywords d)) = 0"
    "int (length (keywords_present tier2_keywords d)) = 0"
    unfolding description_points_def by linarith+
  then show ?thesis by (simp add: description_evidence_def)
qed

lemma article_points_zero: "article_points t = 0 \<Longrightarrow> tier1_hit t = None"
  unfolding article_points_def tier1_hit_def
  by (auto simp: find_None_keywords_present split: if_splits)

lemma sum_article_points_zero:
  "sum_list (map article_points ts) = 0 \<Longrightarrow> news_evidence (map tier1_hit ts) = []"
proof (induction ts)
  case Nil then show ?case by (simp add: news_evidence_def)
next
  case (Cons t ts)
  have a: "0 \<le> article_points t" by (rule article_points_nonneg)
  have b: "0 \<le> sum_list (map article_points ts)" by (rule sum_article_points_nonneg)
  from Cons.prems a b have "article_points t = 0" "sum_list (map article_points ts) = 0" by auto
  then show ?case
    using Cons.IH news_evidence_Cons [of "tier1_hit t" "map tier1_hit ts"]
    by (simp add: article_points_zero news_evidence_def)
qed

lemma raw_score_zero: "raw_score e = 0 \<Longrightarrow> evidence_list e = []"
proof -
  assume z: "raw_score e = 0"
  have a: "0 \<le> description_points (description_text (profile_response e))"
    by (rule description_points_nonneg)
  have b: "0 \<le> sum_list (map article_points (scanned_texts (news_response e)))"
    by (rule sum_article_points_nonneg)
  from z a b have "description_points (description_text (profile_response e)) = 0"
    "sum_list (map article_points (scanned_texts (news_response e))) = 0"
    unfolding raw_score_def by auto
  then show ?thesis
    unfolding evidence_list_def by (simp add: description_points_zero sum_article_points_zero)
qed

lemma keyword_category:
  "or_default (if min (raw_score e) 100 > 0 then Some (categorize_stock (evidence_list e)) else None)
      ''ai_beneficiary'' = categorize_stock (evidence_list e)"
proof (cases "min (raw_score e) 100 > 0")
  case True
  then show ?thesis by (simp add: or_default_def categorize_stock_nonempty)
next
  case False
  with raw_score_nonneg [of e] have "raw_score e = 0" by auto
  then have "evidence_list e = []" by (rule raw_score_zero)
  with False show ?thesis by (simp add: or_default_def categorize_stock_Nil)
qed

lemma keyword_scoring_fields:
  assumes "keyword_scoring e tk = Inr r"
  shows "score r = min (raw_score e) 100"
    and "has_ai r = (score r \<ge> 40)"
    and "category r = categorize_stock (evidence_list e)"
    and "evidence r = join '' | '' (take 5 (evidence_list e))"
    and "ticker r = tk"
proof -
  have k: "api_key_set e"
    using assms keyword_scoring_Inl [of e tk] by auto
  show "score r = min (raw_score e) 100" "has_ai r = (score r \<ge> 40)"
    "evidence r = join '' | '' (take 5 (evidence_list e))" "ticker r = tk"
    using assms keyword_scoring_Inr [OF k, of tk] by auto
  show "category r = categorize_stock (evidence_list e)"
    using assms keyword_scoring_Inr [OF k, of tk] keyword_category [of e] by auto
qed

lemma keyword_scoring_cases:
  "(\<not> api_key_set e \<and> keyword_scoring e tk = Inl (Exception ''FINNHUB_API_KEY not set''))
   \<or> (api_key_set e \<and> (\<exists>r. keyword_scoring e tk = Inr r))"
  using keyword_scoring_Inl [of e tk] keyword_scoring_Inr [of e tk] by (cases "api_key_set e") auto

lemma scan_Inl:
  "keyword_scoring e (strip (upper tk)) = Inl ex \<Longrightarrow>
   scan_stock_for_ai_with v e tk =
     (ScanError \<lparr>err_ticker = strip (upper tk), err_error = ex, err_has_ai = False, err_score = 0\<rparr>, [])"
  unfolding scan_stock_for_ai_with_def Let_def by simp

lemma scan_Inr_outside:
  "keyword_scoring e (strip (upper tk)) = Inr r \<Longrightarrow> \<not> (30 \<le> score r \<and> score r \<le> 70) \<Longrightarrow>
   scan_stock_for_ai_with v e tk = (ScanResult r, [])"
  unfolding scan_stock_for_ai_with_def Let_def by auto

lemma scan_Inr_band:
  "keyword_scoring e (strip (upper tk)) = Inr r \<Longrightarrow> 30 \<le> score r \<Longrightarrow> score r \<le> 70 \<Longrightarrow>
   scan_stock_for_ai_with v e tk =
     (case v (strip (upper tk)) r of
        Inl ex \<Rightarrow> ScanError \<lparr>err_ticker = strip (upper tk), err_error = ex, err_has_ai = False, err_score = 0\<rparr>
      | Inr llm \<Rightarrow> ScanResult (r\<lparr>score := adjusted_score llm, category := llm_category llm,
                                   evidence := evidence r @ '' | LLM: '' @ reasoning llm\<rparr>),
      [(strip (upper tk), r)])"
  unfolding scan_stock_for_ai_with_def Let_def by (auto split: sum.splits)

lemmas scan_eval = keyword_scoring_def profile_stage_def news_stage_def article_text_def
      dict_get_def lower_def lower_char_def isupper_def score_article_def score_description_def
      tier1_keywords_def tier2_keywords_def Let_def categorize_stock_def tier1_categories_def
      or_default_def quoted_def upper_def upper_char_def islower_def strip_def isspace_def
      scan_stock_for_ai_def scan_stock_for_ai_with_def llm_validation_def

lemmas raw_eval = raw_score_def description_text_def scanned_texts_def article_text_def
      dict_get_def lower_def lower_char_def isupper_def description_points_def article_points_def
      keywords_present_def tier1_keywords_def tier2_keywords_def api_key_set_def

lemma scan_llm_output:
  assumes "keyword_scoring e (strip (upper tk)) = Inr r"
  shows "out_score (fst (scan_stock_for_ai e tk)) = score r"
    and "out_has_ai (fst (scan_stock_for_ai e tk)) = has_ai r"
    and "out_category (fst (scan_stock_for_ai e tk)) = Some (category r)"
proof -
  have "out_score (fst (scan_stock_for_ai e tk)) = score r
      \<and> out_has_ai (fst (scan_stock_for_ai e tk)) = has_ai r
      \<and> out_category (fst (scan_stock_for_ai e tk)) = Some (category r)"
  proof (cases "30 \<le> score r \<and> score r \<le> 70")
    case True
    then show ?thesis unfolding scan_stock_for_ai_def using assms
      by (simp add: scan_Inr_band llm_validation_def)
  next
    case False
    then show ?thesis unfolding scan_stock_for_ai_def using assms
      by (simp add: scan_Inr_outside)
  qed
  then show "out_score (fst (scan_stock_for_ai e tk)) = score r"
    "out_has_ai (fst (scan_stock_for_ai e tk)) = has_ai r"
    "out_category (fst (scan_stock_for_ai e tk)) = Some (category r)" by simp_all
qed

lemma strip_upper_acme: "strip (upper ''acme '') = ''ACME''"
  by (simp add: upper_def upper_char_def islower_def strip_def isspace_def)


section \<open>The scanner\<close>

text \<open>
  C2, as the source has it. A scan in which no keyword matched returns score 0 and
  \<open>has_ai\<close> false; its category is not left unset but defaulted to
  \<^verbatim>\<open>ai_beneficiary\<close> (\<^verbatim>\<open>category or 'ai_beneficiary'\<close>). Only the scan that
  fails for want of the API key returns an object without a category.
\<close>

theorem no_match_scan:
  assumes "raw_score e = 0"
  shows "out_score (fst (scan_stock_for_ai e tk)) = 0
       \<and> out_has_ai (fst (scan_stock_for_ai e tk)) = False
       \<and> out_category (fst (scan_stock_for_ai e tk))
           = (if api_key_set e then Some ''ai_beneficiary'' else None)"
proof (cases "api_key_set e")
  case False
  then have "keyword_scoring e (strip (upper tk)) = Inl (Exception ''FINNHUB_API_KEY not set'')"
    by (rule keyword_scoring_Inl)
  with False show ?thesis unfolding scan_stock_for_ai_def by (simp add: scan_Inl)
next
  case True
  then obtain r where r: "keyword_scoring e (strip (upper tk)) = Inr r"
    using keyword_scoring_cases [of e "strip (upper tk)"] by auto
  have "evidence_list e = []" using assms by (rule raw_score_zero)
  then have "score r = 0" "has_ai r = False" "category r = ''ai_beneficiary''"
    using keyword_scoring_fields(1-3) [OF r] assms by (simp_all add: categorize_stock_Nil)
  with True show ?thesis using scan_llm_output [OF r] by simp
qed

theorem no_match_scan_witness:
  "raw_score quiet_env = 0
   \<and> out_score (fst (scan_stock_for_ai quiet_env ''acme '')) = 0
   \<and> out_has_ai (fst (scan_stock_for_ai quiet_env ''acme '')) = False
   \<and> out_category (fst (scan_stock_for_ai quiet_env ''acme '')) = Some ''ai_beneficiary''"
proof -
  have h: "raw_score quiet_env = 0" by (simp add: quiet_env_def raw_eval)
  have k: "api_key_set quiet_env" by (simp add: quiet_env_def api_key_set_def)
  show ?thesis using h k no_match_scan [OF h, of "''acme ''"] by simp
qed

text \<open>
  C2 as stated fails: no keyword occurs in the description or the news of this company,
  and the category of its scan is \<^verbatim>\<open>ai_beneficiary\<close>, not unset.
\<close>

theorem no_match_category_counterexample:
  "keywords_present (tier1_keywords @ tier2_keywords) ''acme sells hamburgers.'' = []
   \<and> keywords_present (tier1_keywords @ tier2_keywords) ''acme opens a new diner fries included'' = []
   \<and> fst (scan_stock_for_ai quiet_env ''acme '')
       = ScanResult \<lparr>ticker = ''ACME'', company_name = JStr ''Acme Burgers'',
                     sector = JStr ''Restaurants'', has_ai = False, score = 0,
                     category = ''ai_beneficiary'', evidence = []\<rparr>
   \<and> out_category (fst (scan_stock_for_ai quiet_env ''acme '')) \<noteq> None"
  by (simp add: quiet_env_def scan_eval keywords_present_def)






text \<open>
  C5, as the source has it. When both requests fail, the scan returns score 0,
  \<open>has_ai\<close> false, an empty evidence and the default category \<^verbatim>\<open>ai_beneficiary\<close>;
  without the API key it returns the error object, with score 0 and \<open>has_ai\<close> false.
\<close>

theorem both_fetches_fail:
  assumes "profile_response e = Inl x" and "news_response e = Inl y"
  shows "fst (scan_stock_for_ai e tk) =
           (if api_key_set e
            then ScanResult \<lparr>ticker = strip (upper tk), company_name = JStr (strip (upper tk)),
                             sector = JNull, has_ai = False, score = 0,
                             category = ''ai_beneficiary'', evidence = []\<rparr>
            else ScanError \<lparr>err_ticker = strip (upper tk),
                            err_error = Exception ''FINNHUB_API_KEY not set'',
                            err_has_ai = False, err_score = 0\<rparr>)"
proof (cases "api_key_set e")
  case False
  then have "keyword_scoring e (strip (upper tk)) = Inl (Exception ''FINNHUB_API_KEY not set'')"
    by (rule keyword_scoring_Inl)
  with False show ?thesis unfolding scan_stock_for_ai_def by (simp add: scan_Inl)
next
  case True
  have "keyword_scoring e (strip (upper tk)) =
          Inr \<lparr>ticker = strip (upper tk), company_name = JStr (strip (upper tk)),
               sector = JNull, has_ai = False, score = 0,
               category = ''ai_beneficiary'', evidence = []\<rparr>"
    using True assms unfolding keyword_scoring_def api_key_set_def
    by (auto simp: profile_stage_def news_stage_def or_default_def split: option.splits)
  with True show ?thesis unfolding scan_stock_for_ai_def by (simp add: scan_Inr_outside)
qed

theorem both_fetches_fail_witness:
  "profile_response offline_env = Inl RequestError \<and> news_response offline_env = Inl RequestError
   \<and> fst (scan_stock_for_ai offline_env ''acme '') =
       ScanResult \<lparr>ticker = ''ACME'', company_name = JStr ''ACME'',
                    sector = JNull, has_ai = False, score = 0,
                    category = ''ai_beneficiary'', evidence = []\<rparr>"
proof -
  have p: "profile_response offline_env = Inl RequestError"
    and n: "news_response offline_env = Inl RequestError"
    by (simp_all add: offline_env_def)
  have k: "api_key_set offline_env" by (simp add: offline_env_def api_key_set_def)
  have s: "strip (upper ''acme '') = ''ACME''"
    by (simp add: upper_def upper_char_def islower_def strip_def isspace_def)
  show ?thesis using both_fetches_fail [OF p n, of "''acme ''"] p n k s by simp
qed

text \<open>
  C5 as stated fails: with both requests failing, the category of the scan is
  \<^verbatim>\<open>ai_beneficiary\<close>, not unset.
\<close>

theorem both_fetches_fail_counterexample:
  "profile_response offline_env = Inl RequestError \<and> news_response offline_env = Inl RequestError
   \<and> out_score (fst (scan_stock_for_ai offline_env ''acme '')) = 0
   \<and> out_evidence (fst (scan_stock_for_ai offline_env ''acme '')) = Some []
   \<and> out_category (fst (scan_stock_for_ai offline_env ''acme '')) = Some ''ai_beneficiary''
   \<and> out_category (fst (scan_stock_for_ai offline_env ''acme '')) \<noteq> None"
  by (simp add: offline_env_def scan_eval)

text \<open>
  C9. In every result of the scanner, \<open>has_ai\<close> holds exactly when the score of the
  result is at least 40. (The flag is set by the keyword stage; the validator of the
  source returns the keyword score unchanged.)
\<close>

theorem has_ai_iff_score_at_least_40:
  "out_has_ai (fst (scan_stock_for_ai e tk)) = (out_score (fst (scan_stock_for_ai e tk)) \<ge> 40)"
proof (cases "keyword_scoring e (strip (upper tk))")
  case (Inl ex)
  then show ?thesis unfolding scan_stock_for_ai_def by (simp add: scan_Inl)
next
  case (Inr r)
  show ?thesis
    using scan_llm_output(1,2) [OF Inr] keyword_scoring_fields(2) [OF Inr] by simp
qed

section \<open>Monotonicity and range of the score\<close>

lemma keywords_present_mono:
  assumes "\<forall>k \<in> set tier. str_in k a \<longrightarrow> str_in k b"
  shows "length (keywords_present tier a) \<le> length (keywords_present tier b)"
  using assms unfolding keywords_present_def
  by (induction tier) auto

lemma keywords_present_Nil_mono:
  assumes "\<forall>k \<in> set tier. str_in k a \<longrightarrow> str_in k b" "keywords_present tier b = []"
  shows "keywords_present tier a = []"
  using assms unfolding keywords_present_def
  by (auto simp: filter_empty_conv)

lemma description_points_mono: "text_le a b \<Longrightarrow> description_points a \<le> description_points b"
proof -
  assume le: "text_le a b"
  then have 1: "\<forall>k \<in> set tier1_keywords. str_in k a \<longrightarrow> str_in k b"
    and 2: "\<forall>k \<in> set tier2_keywords. str_in k a \<longrightarrow> str_in k b"
    by (auto simp: text_le_def list_all_iff keywords_present_def)
  show ?thesis
    unfolding description_points_def
    using keywords_present_mono [OF 1] keywords_present_mono [OF 2] by simp
qed

lemma article_points_mono: "text_le a b \<Longrightarrow> article_points a \<le> article_points b"
proof -
  assume le: "text_le a b"
  then have 1: "\<forall>k \<in> set tier1_keywords. str_in k a \<longrightarrow> str_in k b"
    and 2: "\<forall>k \<in> set tier2_keywords. str_in k a \<longrightarrow> str_in k b"
    by (auto simp: text_le_def list_all_iff keywords_present_def)
  show ?thesis
    unfolding article_points_def
    using keywords_present_Nil_mono [OF 1] keywords_present_Nil_mono [OF 2] by auto
qed

lemma sum_article_points_mono:
  "texts_le as bs \<Longrightarrow> sum_list (map article_points as) \<le> sum_list (map article_points bs)"
proof (induction as bs rule: texts_le.induct)
  case (1 bs)
  then show ?case by (simp add: sum_article_points_nonneg)
next
  case (2 a as)
  then show ?case by simp
next
  case (3 a as b bs)
  then show ?case using article_points_mono [of a b] by simp
qed

lemma raw_score_mono:
  assumes "text_le (description_text (profile_response a)) (description_text (profile_response b))"
    and "texts_le (scanned_texts (news_response a)) (scanned_texts (news_response b))"
  shows "raw_score a \<le> raw_score b"
  unfolding raw_score_def
  using description_points_mono [OF assms(1)] sum_article_points_mono [OF assms(2)] by simp

lemma out_score_eq:
  "out_score (fst (scan_stock_for_ai e tk)) = (if api_key_set e then min (raw_score e) 100 else 0)"
proof (cases "api_key_set e")
  case False
  then have "keyword_scoring e (strip (upper tk)) = Inl (Exception ''FINNHUB_API_KEY not set'')"
    by (rule keyword_scoring_Inl)
  with False show ?thesis unfolding scan_stock_for_ai_def by (simp add: scan_Inl)
next
  case True
  then obtain r where r: "keyword_scoring e (strip (upper tk)) = Inr r"
    using keyword_scoring_cases [of e "strip (upper tk)"] by auto
  show ?thesis using True scan_llm_output(1) [OF r] keyword_scoring_fields(1) [OF r] by simp
qed

text \<open>
  C8. The score of a scan is an integer from 0 to 100, the points of the matches found
  capped at 100, and adding matches never lowers it: when every keyword match found in
  the description and in each scanned article of one scan is also found in another
  (which may scan further articles), the score of the other is at least as high.
\<close>

theorem score_monotone_and_capped:
  assumes "api_key_set a = api_key_set b"
    and "text_le (description_text (profile_response a)) (description_text (profile_response b))"
    and "texts_le (scanned_texts (news_response a)) (scanned_texts (news_response b))"
  shows "out_score (fst (scan_stock_for_ai a tk)) \<le> out_score (fst (scan_stock_for_ai b tk))
       \<and> 0 \<le> out_score (fst (scan_stock_for_ai b tk))
       \<and> out_score (fst (scan_stock_for_ai b tk)) \<le> 100
       \<and> out_score (fst (scan_stock_for_ai b tk))
           = (if api_key_set b then min (raw_score b) 100 else 0)"
  using raw_score_mono [OF assms(2,3)] assms(1) raw_score_nonneg [of b]
  by (auto simp: out_score_eq)

theorem score_monotone_and_capped_witness:
  "api_key_set borderline_env = api_key_set richer_env
   \<and> text_le (description_text (profile_response borderline_env))
              (description_text (profile_response richer_env))
   \<and> texts_le (scanned_texts (news_response borderline_env))
               (scanned_texts (news_response richer_env))
   \<and> out_score (fst (scan_stock_for_ai borderline_env ''acme '')) = 30
   \<and> out_score (fst (scan_stock_for_ai richer_env ''acme '')) = 55"
proof -
  have k: "api_key_set borderline_env = api_key_set richer_env"
    by (simp add: borderline_env_def richer_env_def api_key_set_def)
  have d: "text_le (description_text (profile_response borderline_env))
              (description_text (profile_response richer_env))"
    by (simp add: borderline_env_def richer_env_def text_le_def description_text_def dict_get_def
        lower_def lower_char_def isupper_def keywords_present_def
        tier1_keywords_def tier2_keywords_def)
  have n: "texts_le (scanned_texts (news_response borderline_env))
               (scanned_texts (news_response richer_env))"
    by (simp add: borderline_env_def scanned_texts_def)
  have a: "out_score (fst (scan_stock_for_ai borderline_env ''acme '')) = 30"
    by (simp add: borderline_env_def scan_eval)
  have b: "raw_score richer_env = 55"
    by (simp add: richer_env_def raw_eval)
  have kb: "api_key_set richer_env" by (simp add: richer_env_def api_key_set_def)
  from score_monotone_and_capped [OF k d n, of "''acme ''"]
  have "out_score (fst (scan_stock_for_ai richer_env ''acme '')) = 55"
    using b kb by simp
  with k d n a show ?thesis by simp
qed

section \<open>Evidence and category\<close>

lemma keywords_present_append:
  "keywords_present (xs @ ys) t = keywords_present xs t @ keywords_present ys t"
  by (simp add: keywords_present_def)

text \<open>
  C10. An article with a tier-2 keyword and no tier-1 keyword adds 5 points and leaves
  the evidence as it is. So the evidence and the category of the keyword stage depend
  on the description hits and the tier-1 news hits alone: two scans that agree on these
  return the same evidence and the same category, whatever tier-2 keywords their news
  hold; and the category is read off the evidence entries.
\<close>

theorem tier2_news_hits_leave_no_evidence:
  assumes "tier1_hit t = None" and "keywords_present tier2_keywords t \<noteq> []"
    and "keyword_scoring a tk = Inr ra" and "keyword_scoring b tk = Inr rb"
    and "keywords_present (tier1_keywords @ tier2_keywords) (description_text (profile_response a))
           = keywords_present (tier1_keywords @ tier2_keywords)
               (description_text (profile_response b))"
    and "map tier1_hit (scanned_texts (news_response a))
           = map tier1_hit (scanned_texts (news_response b))"
  shows "score_article t st = st\<lparr>cur_score := cur_score st + 5\<rparr>
       \<and> evidence ra = evidence rb
       \<and> category ra = category rb
       \<and> category ra = categorize_stock (evidence_list a)"
proof -
  have five: "score_article t st = st\<lparr>cur_score := cur_score st + 5\<rparr>"
    using assms(1,2) find_None_keywords_present [of t tier2_keywords]
    unfolding score_article_def tier1_hit_def Let_def
    by (auto split: option.splits)
  have "description_evidence (description_text (profile_response a))
          = description_evidence (description_text (profile_response b))"
    using assms(5) unfolding description_evidence_def
    by (simp add: keywords_present_append)
  then have "evidence_list a = evidence_list b"
    using assms(6) unfolding evidence_list_def by simp
  then show ?thesis
    using five keyword_scoring_fields(3,4) [OF assms(3)] keyword_scoring_fields(3,4) [OF assms(4)]
    by simp
qed

lemma richer_scoring:
  "keyword_scoring richer_env ''ACME'' =
     Inr \<lparr>ticker = ''ACME'', company_name = JStr ''Acme Labs'', sector = JNull,
          has_ai = True, score = 55, category = ''ai_chip'',
          evidence = join '' | '' [''Description: '' @ quoted ''machine learning'',
                                   ''Description: '' @ quoted ''deep learning'',
                                   ''Description: '' @ quoted ''llm'',
                                   ''Description: '' @ quoted ''ai chip'',
                                   ''News: '' @ quoted ''ai chip'' @ '' in headline'']\<rparr>"
  by (simp add: richer_env_def scan_eval)

lemma richer_plain_scoring:
  "keyword_scoring richer_env_plain_news ''ACME'' =
     Inr \<lparr>ticker = ''ACME'', company_name = JStr ''Acme Labs'', sector = JNull,
          has_ai = True, score = 50, category = ''ai_chip'',
          evidence = join '' | '' [''Description: '' @ quoted ''machine learning'',
                                   ''Description: '' @ quoted ''deep learning'',
                                   ''Description: '' @ quoted ''llm'',
                                   ''Description: '' @ quoted ''ai chip'',
                                   ''News: '' @ quoted ''ai chip'' @ '' in headline'']\<rparr>"
  by (simp add: richer_env_def richer_env_plain_news_def scan_eval)

theorem tier2_news_hits_leave_no_evidence_witness:
  "tier1_hit ''new data center opens '' = None
   \<and> keywords_present tier2_keywords ''new data center opens '' = [''data center'']
   \<and> score_article ''new data center opens ''
        \<lparr>cur_score = 10, cur_evidence = [''e''], cur_company_name = JNull, cur_sector = JNull\<rparr>
       = \<lparr>cur_score = 15, cur_evidence = [''e''], cur_company_name = JNull, cur_sector = JNull\<rparr>
   \<and> map_sum id score (keyword_scoring richer_env ''ACME'') = Inr 55
   \<and> map_sum id score (keyword_scoring richer_env_plain_news ''ACME'') = Inr 50
   \<and> map_sum id evidence (keyword_scoring richer_env ''ACME'')
       = map_sum id evidence (keyword_scoring richer_env_plain_news ''ACME'')
   \<and> map_sum id category (keyword_scoring richer_env ''ACME'') = Inr ''ai_chip''
   \<and> map_sum id category (keyword_scoring richer_env_plain_news ''ACME'') = Inr ''ai_chip''"
proof -
  have t1: "tier1_hit ''new data center opens '' = None"
    by (simp add: tier1_hit_def tier1_keywords_def)
  have t2: "keywords_present tier2_keywords ''new data center opens '' = [''data center'']"
    by (simp add: keywords_present_def tier2_keywords_def)
  then have t2': "keywords_present tier2_keywords ''new data center opens '' \<noteq> []" by simp
  have d: "keywords_present (tier1_keywords @ tier2_keywords)
              (description_text (profile_response richer_env))
           = keywords_present (tier1_keywords @ tier2_keywords)
               (description_text (profile_response richer_env_plain_news))"
    by (simp add: richer_env_plain_news_def)
  have n: "map tier1_hit (scanned_texts (news_response richer_env))
           = map tier1_hit (scanned_texts (news_response richer_env_plain_news))"
    by (simp add: richer_env_def richer_env_plain_news_def scanned_texts_def article_text_def
        dict_get_def lower_def lower_char_def isupper_def tier1_hit_def tier1_keywords_def)
  show ?thesis
    using tier2_news_hits_leave_no_evidence [OF t1 t2' richer_scoring richer_plain_scoring d n,
        of "\<lparr>cur_score = 10, cur_evidence = [''e''], cur_company_name = JNull, cur_sector = JNull\<rparr>"]
      t1 t2 richer_scoring richer_plain_scoring
    by simp
qed

section \<open>Upsert\<close>























section \<open>Query\<close>

lemma apply_qops_snoc:
  "apply_qops (qs @ [q]) rs =
     (case apply_qops qs rs of Inl ex \<Rightarrow> Inl ex | Inr rs' \<Rightarrow> apply_qop q rs')"
  by (induction qs arbitrary: rs) (auto split: sum.splits)

lemma is_int_or_absentE:
  assumes "is_int_or_absent v"
  obtains "v = None" | m where "v = Some (JInt m)"
  using assms unfolding is_int_or_absent_def
  by (cases v) (auto split: json.splits)

lemma stage1:
  "apply_qops (if dict_has f ''is_active''
                then [Eq ''is_active'' (dict_get f ''is_active'' JNull)] else []) rs
   = Inr (filter (matches_is_active f) rs)"
  by (cases "map_of f ''is_active''")
     (simp_all add: dict_has_def dict_get_def matches_is_active_def [abs_def])

lemma stage2:
  assumes "is_int_or_absent (map_of f ''min_score'')" and "apply_qops q1 rs = Inr rs1"
  shows "apply_qops (if dict_has f ''min_score''
                then q1 @ [Gte ''score'' (dict_get f ''min_score'' JNull)] else q1) rs
   = Inr (filter (matches_min_score f) rs1)"
  using assms(1)
proof (cases rule: is_int_or_absentE)
  case 1
  then show ?thesis using assms(2) by (simp add: dict_has_def matches_min_score_def [abs_def])
next
  case (2 m)
  then show ?thesis using assms(2)
    by (simp add: dict_has_def dict_get_def matches_min_score_def [abs_def] apply_qops_snoc)
qed

lemma stage3:
  assumes "is_int_or_absent (map_of f ''max_score'')" and "apply_qops q2 rs = Inr rs2"
  shows "apply_qops (if dict_has f ''max_score''
                then q2 @ [Lte ''score'' (dict_get f ''max_score'' JNull)] else q2) rs
   = Inr (filter (matches_max_score f) rs2)"
  using assms(1)
proof (cases rule: is_int_or_absentE)
  case 1
  then show ?thesis using assms(2) by (simp add: dict_has_def matches_max_score_def [abs_def])
next
  case (2 m)
  then show ?thesis using assms(2)
    by (simp add: dict_has_def dict_get_def matches_max_score_def [abs_def] apply_qops_snoc)
qed

lemma stage4:
  assumes "apply_qops q3 rs = Inr rs3"
  shows "apply_qops (if dict_has f ''category''
                then q3 @ [Eq ''category'' (dict_get f ''category'' JNull)] else q3) rs
   = Inr (filter (matches_category f) rs3)"
  using assms
  by (cases "map_of f ''category''")
     (simp_all add: dict_has_def dict_get_def matches_category_def [abs_def] apply_qops_snoc)

lemma limit_stage:
  assumes "case map_of f ''limit'' of None \<Rightarrow> True | Some (JInt n) \<Rightarrow> 0 \<le> n | _ \<Rightarrow> False"
  shows "apply_qop (Limit (dict_get f ''limit'' (JInt 100))) rs = Inr (take (query_limit f) rs)"
  using assms unfolding dict_get_def query_limit_def
  by (auto split: option.splits json.splits)

lemma build_query_result:
  assumes "filters_typed f"
  shows "apply_qops (build_query f) rs = Inr (expected_rows f rs)"
proof -
  from assms have t1: "is_int_or_absent (map_of f ''min_score'')"
    and t2: "is_int_or_absent (map_of f ''max_score'')"
    and t3: "case map_of f ''limit'' of None \<Rightarrow> True | Some (JInt n) \<Rightarrow> 0 \<le> n | _ \<Rightarrow> False"
    unfolding filters_typed_def by simp_all
  note s1 = stage1 [of f rs]
  note s2 = stage2 [OF t1 s1]
  note s3 = stage3 [OF t2 s2]
  note s4 = stage4 [OF s3]
  show ?thesis
    unfolding build_query_def Let_def expected_rows_def apply_qops_snoc s4
    by (simp add: limit_stage [OF t3] row_matches_def [abs_def] del: apply_qop.simps(5))
qed

lemma sorted_take_desc:
  "sorted (map (desc_key col) (take n (sort_key (desc_key col) rs)))"
  by (simp add: take_map [symmetric] sorted_wrt_take)

lemma example_expected:
  "expected_rows example_filters (rows example_store) = [stock ''DDD'' 90 True, stock ''CCC'' 75 True]"
  by (simp add: expected_rows_def example_filters_def example_store_def row_matches_def
      matches_is_active_def matches_min_score_def matches_max_score_def matches_category_def
      query_limit_def stock_def desc_key_def)

text \<open>
  C7. With the store reachable and the bounds and limit of the types documented, a
  query returns the records that match every filter given (\<^verbatim>\<open>is_active\<close> and
  \<^verbatim>\<open>category\<close> exactly, the score within \<^verbatim>\<open>min_score\<close> and \<^verbatim>\<open>max_score\<close>, both
  included), ordered by score descending, at most \<^verbatim>\<open>limit\<close> of them (100 by
  default), together with their count. The example of the spec: the filters
  \<^verbatim>\<open>{is_active: true, min_score: 70, limit: 50}\<close> over three active records with
  scores 90, 75, 60 and an inactive one with score 95 return the two records with
  scores 90 and 75, in this order.
\<close>

theorem query_applies_filters:
  "(reachable st \<and> filters_typed f \<longrightarrow>
      get_trading_universe (Some st) (Inr (JDict f)) =
        Found \<lparr>count = length (expected_rows f (rows st)),
               stocks = expected_rows f (rows st)\<rparr>
    \<and> expected_rows f (rows st)
        = take (query_limit f)
            (sort_key (desc_key ''score'') (filter (row_matches f) (rows st)))
    \<and> sorted (map (desc_key ''score'') (expected_rows f (rows st)))
    \<and> length (expected_rows f (rows st)) \<le> query_limit f)
   \<and> get_trading_universe (Some example_store) (Inr (JDict example_filters)) =
        Found \<lparr>count = 2, stocks = [stock ''DDD'' 90 True, stock ''CCC'' 75 True]\<rparr>"
proof -
  have general: "get_trading_universe (Some s) (Inr (JDict g)) =
        Found \<lparr>count = length (expected_rows g (rows s)), stocks = expected_rows g (rows s)\<rparr>"
    if "reachable s" "filters_typed g" for s g
    using that unfolding get_trading_universe_def store_execute_def
    by (simp add: build_query_result)
  have r: "reachable example_store" by (simp add: example_store_def)
  have t: "filters_typed example_filters"
    by (simp add: filters_typed_def is_int_or_absent_def example_filters_def)
  have example: "get_trading_universe (Some example_store) (Inr (JDict example_filters)) =
        Found \<lparr>count = 2, stocks = [stock ''DDD'' 90 True, stock ''CCC'' 75 True]\<rparr>"
    using general [OF r t] by (simp add: example_expected)
  show ?thesis
    using general [of st f] example
    by (simp add: expected_rows_def sorted_take_desc)
qed

theorem query_applies_filters_witness:
  "reachable example_store \<and> filters_typed example_filters
   \<and> query_limit example_filters = 50
   \<and> (case get_trading_universe (Some example_store) (Inr (JDict example_filters)) of
         Found res \<Rightarrow> count res = 2
                    \<and> map (\<lambda>r. r ''score'') (stocks res) = [Some (JInt 90), Some (JInt 75)]
                    \<and> map (\<lambda>r. r ''is_active'') (stocks res) = [Some (JBool True), Some (JBool True)]
       | QueryError ex \<Rightarrow> False)"
proof -
  have r: "reachable example_store" by (simp add: example_store_def)
  have t: "filters_typed example_filters"
    by (simp add: filters_typed_def is_int_or_absent_def example_filters_def)
  have l: "query_limit example_filters = 50"
    by (simp add: query_limit_def example_filters_def)
  from query_applies_filters [of example_store example_filters] r t
  have g: "get_trading_universe (Some example_store) (Inr (JDict example_filters)) =
        Found \<lparr>count = length (expected_rows example_filters (rows example_store)),
               stocks = expected_rows example_filters (rows example_store)\<rparr>"
    by blast
  show ?thesis
    using r t l by (simp add: g example_expected stock_def)
qed

end
